theory Spec2Isabelle
  imports Complex_Main
begin

section \<open>A/B testing router of the churn prediction service\<close>

text \<open>
  The development embeds \<^verbatim>\<open>src/api/ab_testing.py\<close> (class \<^verbatim>\<open>ABTester\<close>) and the
  \<^verbatim>\<open>/predict\<close> handler of \<^verbatim>\<open>src/api/main.py\<close>.

  Conventions of the embedding:
  \<^item> a Python \<^verbatim>\<open>float\<close> is a finite double, represented by the \<^typ>\<open>real\<close> number it denotes;
    a comparison of doubles is the comparison of these numbers. The additions that decide a
    route or the validity of a policy, \<^verbatim>\<open>cumulative += split\<close> and \<^verbatim>\<open>sum(...)\<close>, are rounded:
    they are the parameters \<open>float_add\<close> and \<open>float_sum\<close> of the model, and the literals
    \<^verbatim>\<open>0.99\<close> and \<^verbatim>\<open>1.01\<close> are the doubles of that name. A weight that is an infinity
    or a NaN makes the sum an infinity or a NaN, which the constructor rejects; these
    values are not represented. In the statistics, sums and quotients are the exact ones;
  \<^item> a Python \<^verbatim>\<open>dict\<close> whose iteration order matters is an association list in insertion
    order (\<^verbatim>\<open>traffic_split\<close>, the \<^verbatim>\<open>"models"\<close> entry of the statistics); a dictionary has
    no duplicate keys, assignment to a key is \<open>dict_set\<close>;
  \<^item> every \<^verbatim>\<open>raise\<close> is a value \<open>Inl e\<close> of a sum type; a method of \<^verbatim>\<open>ABTester\<close> takes the
    object and returns its result together with the object after the call;
  \<^item> the effects a call reads from its environment (\<^verbatim>\<open>random.random()\<close>, \<^verbatim>\<open>uuid.uuid4()\<close>,
    \<^verbatim>\<open>time.time()\<close>, \<^verbatim>\<open>datetime.now()\<close>) are arguments of the model.
\<close>

subsection \<open>Errors\<close>

datatype py_error =
    ValueError
  | KeyError string
  | IndexError
  | ZeroDivisionError
  | AttributeError
  | PredictError
  | HTTPException nat py_error

text \<open>True division \<^verbatim>\<open>a / b\<close>, and \<^verbatim>\<open>min\<close>/\<^verbatim>\<open>max\<close> of a list, which raise on an empty one.\<close>

definition py_div :: "real \<Rightarrow> real \<Rightarrow> py_error + real" where
  "py_div a b = (if b = 0 then Inl ZeroDivisionError else Inr (a / b))"

fun py_min :: "real list \<Rightarrow> py_error + real" where
  "py_min [] = Inl ValueError"
| "py_min (x # xs) = Inr (fold min xs x)"

fun py_max :: "real list \<Rightarrow> py_error + real" where
  "py_max [] = Inl ValueError"
| "py_max (x # xs) = Inr (fold max xs x)"

text \<open>Sequencing of computations that may raise.\<close>

definition and_then :: "py_error + 'a \<Rightarrow> ('a \<Rightarrow> py_error + 'b) \<Rightarrow> py_error + 'b" where
  "and_then m f = (case m of Inl e \<Rightarrow> Inl e | Inr x \<Rightarrow> f x)"

text \<open>\<^verbatim>\<open>d[k] = v\<close> on an insertion-ordered dictionary: an existing key keeps its place.\<close>

fun dict_set :: "('k \<times> 'v) list \<Rightarrow> 'k \<Rightarrow> 'v \<Rightarrow> ('k \<times> 'v) list" where
  "dict_set [] k v = [(k, v)]"
| "dict_set ((k', v') # d) k v = (if k' = k then (k, v) # d else (k', v') # dict_set d k v)"

subsection \<open>Doubles\<close>

text \<open>
  The addition of doubles (IEEE 754 binary64, round to nearest, ties to even) on the real
  numbers that doubles denote. It is the instance of \<open>float_add\<close> at which the theorems are
  evaluated on concrete policies; the theorems themselves hold for every \<open>float_add\<close>.
\<close>

text \<open>The integer nearest to \<open>x\<close>, the even one of the two when \<open>x\<close> lies half way.\<close>

definition round_half_even :: "real \<Rightarrow> int" where
  "round_half_even x =
     (let f = \<lfloor>x\<rfloor>; d = x - real_of_int f
      in if d < 1 / 2 then f else if 1 / 2 < d then f + 1 else if even f then f else f + 1)"

text \<open>
  The exponent \<open>e\<close> with \<open>2 ^ e \<le> x < 2 ^ (e + 1)\<close> of a positive \<open>x\<close>, found by doubling or
  halving at most \<open>n\<close> times; 1100 steps reach every finite double.
\<close>

fun binade :: "nat \<Rightarrow> real \<Rightarrow> int" where
  "binade 0 x = 0"
| "binade (Suc n) x =
     (if x < 1 then binade n (2 * x) - 1 else if 2 \<le> x then binade n (x / 2) + 1 else 0)"

definition pow2 :: "int \<Rightarrow> real" where
  "pow2 e = (if 0 \<le> e then 2 ^ nat e else 1 / 2 ^ nat (- e))"

text \<open>
  The double nearest to \<open>x\<close>: 53 significant bits from \<open>2 ^ - 1022\<close> on, multiples of
  \<open>2 ^ - 1074\<close> below. A result of magnitude \<open>2 ^ 1024\<close> or more, where the source has an
  infinity, is outside the model.
\<close>

definition round_double :: "real \<Rightarrow> real" where
  "round_double x =
     (if x = 0 then 0
      else let e = max (binade 1100 \<bar>x\<bar>) (- 1022); u = pow2 (e - 52)
           in real_of_int (round_half_even (x / u)) * u)"

definition double_add :: "real \<Rightarrow> real \<Rightarrow> real" where
  "double_add a b = round_double (a + b)"

text \<open>
  \<^verbatim>\<open>sum(values)\<close> adding the values from left to right, starting from \<^verbatim>\<open>0\<close>, as CPython
  does up to version 3.11; later versions compensate the rounding errors of the additions,
  and the theorems on the constructor hold for every \<open>float_sum\<close>.
\<close>

definition double_sum :: "real list \<Rightarrow> real" where
  "double_sum values = fold (\<lambda>v acc. double_add acc v) values 0"

text \<open>The doubles that the literals \<^verbatim>\<open>0.99\<close> and \<^verbatim>\<open>1.01\<close> denote.\<close>

definition float_0_99 :: real where
  "float_0_99 = 4458563631096791 / 4503599627370496"

definition float_1_01 :: real where
  "float_1_01 = 4548635623644201 / 4503599627370496"

subsection \<open>The tester object\<close>

text \<open>One entry of \<^verbatim>\<open>request_log\<close>, as \<^verbatim>\<open>log_request\<close> builds it.\<close>

record log_entry =
  request_id :: string
  timestamp :: string
  model_version :: string
  prediction :: int
  churn_probability :: real
  latency_ms :: real

record ABTester =
  traffic_split :: "(string \<times> real) list"
  request_log :: "log_entry list"

definition default_traffic_split :: "(string \<times> real) list" where
  "default_traffic_split = [(''v1'', 5 / 10), (''v2'', 5 / 10)]"

text \<open>
  \<^verbatim>\<open>ABTester.__init__\<close>. The argument defaults to \<^verbatim>\<open>None\<close>; \<^verbatim>\<open>traffic_split or {...}\<close> takes
  the default for \<^verbatim>\<open>None\<close> and for the empty dictionary, which is falsy as well. The first
  argument of the model is \<^verbatim>\<open>sum\<close> on a list of doubles.
\<close>

definition ABTester_init ::
  "(real list \<Rightarrow> real) \<Rightarrow> (string \<times> real) list option \<Rightarrow> py_error + ABTester" where
  "ABTester_init float_sum arg =
     (let ts = (case arg of
                  None \<Rightarrow> default_traffic_split
                | Some d \<Rightarrow> if d = [] then default_traffic_split else d);
          total = float_sum (map snd ts)
      in if \<not> (float_0_99 \<le> total \<and> total \<le> float_1_01) then Inl ValueError
         else Inr \<lparr>traffic_split = ts, request_log = []\<rparr>)"

text \<open>
  \<^verbatim>\<open>select_model\<close>: the loop over \<^verbatim>\<open>traffic_split.items()\<close> with the running \<^verbatim>\<open>cumulative\<close>,
  which starts at \<^verbatim>\<open>0\<close> and grows by \<^verbatim>\<open>cumulative += split\<close>, an addition of doubles;
  \<open>None\<close> when the loop ends without a \<^verbatim>\<open>return\<close>.
\<close>

fun select_loop ::
  "(real \<Rightarrow> real \<Rightarrow> real) \<Rightarrow> real \<Rightarrow> real \<Rightarrow> (string \<times> real) list \<Rightarrow> string option" where
  "select_loop float_add rand_value cumulative [] = None"
| "select_loop float_add rand_value cumulative ((mv, split) # rest) =
     (let cumulative' = float_add cumulative split
      in if rand_value \<le> cumulative' then Some mv
         else select_loop float_add rand_value cumulative' rest)"

text \<open>
  The second argument is the value drawn by \<^verbatim>\<open>random.random()\<close>; \<^verbatim>\<open>user_id\<close> is accepted and
  not used. The fallback is \<^verbatim>\<open>list(self.traffic_split.keys())[0]\<close>.
\<close>

definition select_model ::
  "(real \<Rightarrow> real \<Rightarrow> real) \<Rightarrow> real \<Rightarrow> string option \<Rightarrow> ABTester \<Rightarrow> (py_error + string) \<times> ABTester" where
  "select_model float_add rand_value user_id self =
     (case select_loop float_add rand_value 0 (traffic_split self) of
        Some mv \<Rightarrow> (Inr mv, self)
      | None \<Rightarrow>
          (case map fst (traffic_split self) of
             [] \<Rightarrow> (Inl IndexError, self)
           | k # _ \<Rightarrow> (Inr k, self)))"

text \<open>The dictionary \<^verbatim>\<open>ChurnPredictor.predict\<close> returns; it always has these five keys.\<close>

record prediction_result =
  p_model_version :: string
  p_prediction :: int
  p_churn_probability :: real
  p_will_churn :: bool
  p_confidence :: real

text \<open>\<^verbatim>\<open>log_request\<close>; the second argument is \<^verbatim>\<open>datetime.now().isoformat()\<close>.\<close>

definition log_request ::
  "string \<Rightarrow> string \<Rightarrow> prediction_result \<Rightarrow> real \<Rightarrow> string \<Rightarrow> ABTester \<Rightarrow> (py_error + unit) \<times> ABTester" where
  "log_request now mv pred lat rid self =
     (let log_entry = \<lparr>request_id = rid, timestamp = now, model_version = mv,
                        prediction = p_prediction pred,
                        churn_probability = p_churn_probability pred,
                        latency_ms = lat\<rparr>
      in (Inr (), self\<lparr>request_log := request_log self @ [log_entry]\<rparr>))"

definition reset_logs :: "ABTester \<Rightarrow> (py_error + unit) \<times> ABTester" where
  "reset_logs self = (Inr (), self\<lparr>request_log := []\<rparr>)"

subsection \<open>Statistics\<close>

record model_stats =
  request_count :: nat
  traffic_percentage :: real
  avg_latency_ms :: real
  churn_rate :: real
  min_latency_ms :: real
  max_latency_ms :: real

record statistics =
  total_requests :: nat
  models :: "(string \<times> model_stats) list"

text \<open>
  The dictionary built for one version, its entries evaluated in the order of the source;
  \<open>whole_log\<close> is the whole \<^verbatim>\<open>request_log\<close>, \<open>model_requests\<close> the entries of the version.
\<close>

definition version_stats :: "log_entry list \<Rightarrow> log_entry list \<Rightarrow> py_error + model_stats" where
  "version_stats whole_log model_requests =
     (let latencies = map latency_ms model_requests;
          predictions = map prediction model_requests
      in and_then (py_div (real (length model_requests)) (real (length whole_log))) (\<lambda>share.
         and_then (py_div (sum_list latencies) (real (length latencies))) (\<lambda>avg.
         and_then (py_div (real_of_int (sum_list predictions)) (real (length predictions))) (\<lambda>rate.
         and_then (py_min latencies) (\<lambda>mn.
         and_then (py_max latencies) (\<lambda>mx.
           Inr \<lparr>request_count = length model_requests,
                traffic_percentage = share * 100,
                avg_latency_ms = avg,
                churn_rate = rate * 100,
                min_latency_ms = mn,
                max_latency_ms = mx\<rparr>))))))"

text \<open>The loop over \<^verbatim>\<open>traffic_split.keys()\<close>, with \<^verbatim>\<open>stats["models"]\<close> as accumulator.\<close>

fun stats_loop ::
  "log_entry list \<Rightarrow> string list \<Rightarrow> (string \<times> model_stats) list \<Rightarrow> py_error + (string \<times> model_stats) list" where
  "stats_loop whole_log [] acc = Inr acc"
| "stats_loop whole_log (mv # mvs) acc =
     (let model_requests = filter (\<lambda>r. model_version r = mv) whole_log
      in if model_requests \<noteq> []
         then and_then (version_stats whole_log model_requests)
                (\<lambda>s. stats_loop whole_log mvs (dict_set acc mv s))
         else stats_loop whole_log mvs acc)"

definition get_statistics :: "ABTester \<Rightarrow> (py_error + statistics) \<times> ABTester" where
  "get_statistics self =
     (if request_log self = [] then (Inr \<lparr>total_requests = 0, models = []\<rparr>, self)
      else (and_then (stats_loop (request_log self) (map fst (traffic_split self)) [])
              (\<lambda>ms. Inr \<lparr>total_requests = length (request_log self), models = ms\<rparr>),
            self))"

subsection \<open>The prediction endpoint\<close>

text \<open>
  The module state of \<^verbatim>\<open>main.py\<close>: the global dictionary \<^verbatim>\<open>models\<close> (here \<open>app_models\<close>,
  a predictor being the function \<^verbatim>\<open>ChurnPredictor.predict\<close> of a loaded version, which may
  raise), the global \<^verbatim>\<open>ab_tester\<close> (\<^verbatim>\<open>None\<close> until startup has run) and the three Prometheus
  metrics, indexed by their labels.
\<close>

record 'c app_state =
  app_models :: "string \<rightharpoonup> ('c \<Rightarrow> py_error + prediction_result)"
  ab_tester :: "ABTester option"
  prediction_counter :: "string \<Rightarrow> nat"
  prediction_latency :: "string \<Rightarrow> real list"
  churn_predictions :: "string \<times> int \<Rightarrow> nat"

record PredictionResponse =
  r_request_id :: string
  r_model_version :: string
  r_prediction :: int
  r_churn_probability :: real
  r_will_churn :: bool
  r_confidence :: real
  r_latency_ms :: real

text \<open>
  What one call reads from its environment: \<^verbatim>\<open>str(uuid.uuid4())\<close>, the draw of
  \<^verbatim>\<open>random.random()\<close>, the measured \<^verbatim>\<open>(time.time() - start_time) * 1000\<close> and
  \<^verbatim>\<open>datetime.now().isoformat()\<close>.
\<close>

record call_env =
  uuid4 :: string
  random_value :: real
  elapsed_ms :: real
  now_iso :: string

text \<open>
  The body of the \<^verbatim>\<open>try\<close> block of \<^verbatim>\<open>predict_churn\<close>, statement by statement; the first
  argument is the addition of doubles that \<open>select_model\<close> uses.
\<close>

definition predict_body ::
  "(real \<Rightarrow> real \<Rightarrow> real) \<Rightarrow> 'c \<Rightarrow> string option \<Rightarrow> call_env \<Rightarrow> 'c app_state
     \<Rightarrow> (py_error + PredictionResponse) \<times> 'c app_state" where
  "predict_body float_add customer user_id env st =
     (let rid = uuid4 env in
      case ab_tester st of
        None \<Rightarrow> (Inl AttributeError, st)
      | Some tester \<Rightarrow>
          (case select_model float_add (random_value env) user_id tester of
             (Inl e, tester1) \<Rightarrow> (Inl e, st\<lparr>ab_tester := Some tester1\<rparr>)
           | (Inr selected_model, tester1) \<Rightarrow>
               (let st1 = st\<lparr>ab_tester := Some tester1\<rparr> in
                case app_models st1 selected_model of
                  None \<Rightarrow> (Inl (KeyError selected_model), st1)
                | Some predictor \<Rightarrow>
                    (case predictor customer of
                       Inl e \<Rightarrow> (Inl e, st1)
                     | Inr pred \<Rightarrow>
                         (let lat = elapsed_ms env;
                              st2 = st1\<lparr>prediction_counter :=
                                          (prediction_counter st1)
                                            (selected_model := Suc (prediction_counter st1 selected_model)),
                                        prediction_latency :=
                                          (prediction_latency st1)
                                            (selected_model := prediction_latency st1 selected_model @ [lat / 1000]),
                                        churn_predictions :=
                                          (churn_predictions st1)
                                            ((selected_model, p_prediction pred) :=
                                               Suc (churn_predictions st1 (selected_model, p_prediction pred)))\<rparr>
                          in case log_request (now_iso env) selected_model pred lat rid tester1 of
                               (Inl e, tester2) \<Rightarrow> (Inl e, st2\<lparr>ab_tester := Some tester2\<rparr>)
                             | (Inr u, tester2) \<Rightarrow>
                                 (Inr \<lparr>r_request_id = rid,
                                       r_model_version = selected_model,
                                       r_prediction = p_prediction pred,
                                       r_churn_probability = p_churn_probability pred,
                                       r_will_churn = p_will_churn pred,
                                       r_confidence = p_confidence pred,
                                       r_latency_ms = lat\<rparr>,
                                  st2\<lparr>ab_tester := Some tester2\<rparr>))))))"

text \<open>\<^verbatim>\<open>except Exception as e: raise HTTPException(status_code=500, ...)\<close>.\<close>

definition predict_churn ::
  "(real \<Rightarrow> real \<Rightarrow> real) \<Rightarrow> 'c \<Rightarrow> string option \<Rightarrow> call_env \<Rightarrow> 'c app_state
     \<Rightarrow> (py_error + PredictionResponse) \<times> 'c app_state" where
  "predict_churn float_add customer user_id env st =
     (case predict_body float_add customer user_id env st of
        (Inl e, st') \<Rightarrow> (Inl (HTTPException 500 e), st')
      | (Inr response, st') \<Rightarrow> (Inr response, st'))"

text \<open>The records in the log of the application state; none before startup.\<close>

definition recorded :: "'c app_state \<Rightarrow> log_entry list" where
  "recorded st = (case ab_tester st of None \<Rightarrow> [] | Some tester \<Rightarrow> request_log tester)"

text \<open>
  The value of \<^verbatim>\<open>cumulative\<close> in \<open>select_model\<close> after the first \<open>n\<close> versions of a policy:
  the cumulative weight of the \<open>n\<close>-th version.
\<close>

definition cumulative_weight :: "(real \<Rightarrow> real \<Rightarrow> real) \<Rightarrow> (string \<times> real) list \<Rightarrow> nat \<Rightarrow> real" where
  "cumulative_weight float_add ts n = fold (\<lambda>w acc. float_add acc w) (map snd (take n ts)) 0"

text \<open>
  A predictor that answers every customer with the same positive prediction; the theorems on
  the endpoint are instantiated with a registry holding it.
\<close>

definition constant_predictor :: "unit \<Rightarrow> py_error + prediction_result" where
  "constant_predictor c = Inr \<lparr>p_model_version = ''v1'', p_prediction = 1, p_churn_probability = 8 / 10,
                                p_will_churn = True, p_confidence = 8 / 10\<rparr>"


section \<open>Policy validation and version selection\<close>

subsection \<open>Evaluating the addition of doubles\<close>

lemma binade_numeral:
  "binade (numeral k) x =
     (if x < 1 then binade (pred_numeral k) (2 * x) - 1
      else if 2 \<le> x then binade (pred_numeral k) (x / 2) + 1 else 0)"
  by (simp add: numeral_eq_Suc)

lemmas double_eval =
  double_add_def double_sum_def round_double_def binade_numeral pow2_def round_half_even_def Let_def

text \<open>The bounds of the constructor are the doubles nearest to \<open>0.99\<close> and \<open>1.01\<close>.\<close>

lemma float_0_99_nearest: "round_double (99 / 100) = float_0_99"
  by (simp add: double_eval float_0_99_def)

lemma float_1_01_nearest: "round_double (101 / 100) = float_1_01"
  by (simp add: double_eval float_1_01_def)

text \<open>
  Rounding at work: \<^verbatim>\<open>0.1 + 0.2\<close> is \<^verbatim>\<open>0.30000000000000004\<close>, \<^verbatim>\<open>0.3 + 0.696\<close> is the double
  \<^verbatim>\<open>0.996\<close>, \<^verbatim>\<open>1.49 - 0.5\<close> is the double \<^verbatim>\<open>0.99\<close>, and \<^verbatim>\<open>1e16 + 1.0 - 1e16\<close> is \<^verbatim>\<open>0.0\<close>.
\<close>

lemma double_add_tenths:
  "double_add (round_double (1 / 10)) (round_double (2 / 10)) = 1351079888211149 / 4503599627370496"
  by (simp add: double_eval)

lemma double_add_0_996:
  "double_add (round_double (3 / 10)) (round_double (696 / 1000)) = round_double (996 / 1000)"
  by (simp add: double_eval)

lemma double_add_0_99: "double_add (round_double (149 / 100)) (- 1 / 2) = float_0_99"
  by (simp add: double_eval float_0_99_def)

lemma double_sum_absorbs: "double_sum [10 ^ 16, 1, - (10 ^ 16)] = 0"
  by (simp add: double_eval)

text \<open>
  With \<open>{v1: 0.3, v2: 0.696}\<close> and the draw \<open>0.996\<close>, the rounded cumulative weight after \<open>v2\<close>
  equals the draw, although the exact sum of the two doubles is below it: the loop returns
  \<open>v2\<close>.
\<close>

lemma select_model_rounded_total:
  "sum_list (map snd [(''v1'', round_double (3 / 10)), (''v2'', round_double (696 / 1000))]) < round_double (996 / 1000)
   \<and> cumulative_weight double_add [(''v1'', round_double (3 / 10)), (''v2'', round_double (696 / 1000))] 2 = round_double (996 / 1000)
   \<and> fst (select_model double_add (round_double (996 / 1000)) None
            \<lparr>traffic_split = [(''v1'', round_double (3 / 10)), (''v2'', round_double (696 / 1000))], request_log = []\<rparr>) = Inr ''v2''"
  by (simp add: select_model_def cumulative_weight_def numeral_2_eq_2 double_eval)

subsection \<open>Auxiliary facts\<close>

lemma select_loop_key: "select_loop fadd r c ts = Some mv \<Longrightarrow> mv \<in> fst ` set ts"
  by (induction fadd r c ts rule: select_loop.induct) (auto simp: Let_def split: if_splits)

lemma select_loop_first:
  "r \<le> fold (\<lambda>w acc. fadd acc w) (map snd ts) c \<Longrightarrow> ts \<noteq> [] \<Longrightarrow>
   \<exists>i<length ts. select_loop fadd r c ts = Some (fst (ts ! i))
      \<and> r \<le> fold (\<lambda>w acc. fadd acc w) (map snd (take (Suc i) ts)) c
      \<and> (\<forall>j<i. fold (\<lambda>w acc. fadd acc w) (map snd (take (Suc j) ts)) c < r)"
proof (induction ts arbitrary: c)
  case Nil
  then show ?case by simp
next
  case (Cons p rest)
  let ?run = "fold (\<lambda>w acc. fadd acc w)"
  obtain mv split where p: "p = (mv, split)" by (cases p)
  show ?case
  proof (cases "r \<le> fadd c split")
    case True
    then have "select_loop fadd r c (p # rest) = Some (fst ((p # rest) ! 0))
        \<and> r \<le> ?run (map snd (take (Suc 0) (p # rest))) c
        \<and> (\<forall>j<0. ?run (map snd (take (Suc j) (p # rest))) c < r)"
      by (simp add: p)
    then show ?thesis by blast
  next
    case False
    have rest_ne: "rest \<noteq> []"
    proof
      assume "rest = []"
      with Cons.prems(1) False show False by (simp add: p)
    qed
    have "r \<le> ?run (map snd rest) (fadd c split)"
      using Cons.prems(1) by (simp add: p)
    from Cons.IH [OF this rest_ne] obtain i where i:
      "i < length rest" "select_loop fadd r (fadd c split) rest = Some (fst (rest ! i))"
      "r \<le> ?run (map snd (take (Suc i) rest)) (fadd c split)"
      "\<forall>j<i. ?run (map snd (take (Suc j) rest)) (fadd c split) < r"
      by blast
    have step: "\<And>n. ?run (map snd (take (Suc n) (p # rest))) c = ?run (map snd (take n rest)) (fadd c split)"
      by (simp add: p)
    have a: "select_loop fadd r c (p # rest) = Some (fst ((p # rest) ! Suc i))"
      using False i(2) by (simp add: p)
    have b: "r \<le> ?run (map snd (take (Suc (Suc i)) (p # rest))) c"
      using i(3) by (simp only: step)
    have c: "\<forall>j<Suc i. ?run (map snd (take (Suc j) (p # rest))) c < r"
    proof (intro allI impI)
      fix j assume "j < Suc i"
      show "?run (map snd (take (Suc j) (p # rest))) c < r"
      proof (cases j)
        case 0
        then show ?thesis using False by (simp add: p)
      next
        case (Suc j')
        with \<open>j < Suc i\<close> have "j' < i" by simp
        with i(4) have "?run (map snd (take (Suc j') rest)) (fadd c split) < r" by blast
        then show ?thesis by (simp only: Suc step)
      qed
    qed
    from a b c i(1) show ?thesis by auto
  qed
qed

lemma select_loop_none:
  "\<forall>i<length ts. fold (\<lambda>w acc. fadd acc w) (map snd (take (Suc i) ts)) c < r \<Longrightarrow>
   select_loop fadd r c ts = None"
proof (induction ts arbitrary: c)
  case Nil
  then show ?case by simp
next
  case (Cons p rest)
  let ?run = "fold (\<lambda>w acc. fadd acc w)"
  obtain mv split where p: "p = (mv, split)" by (cases p)
  from Cons.prems have "?run (map snd (take (Suc 0) (p # rest))) c < r" by blast
  then have first: "\<not> r \<le> fadd c split" by (simp add: p)
  have "\<forall>i<length rest. ?run (map snd (take (Suc i) rest)) (fadd c split) < r"
  proof (intro allI impI)
    fix i assume "i < length rest"
    then have "Suc i < length (p # rest)" by simp
    with Cons.prems have "?run (map snd (take (Suc (Suc i)) (p # rest))) c < r" by blast
    then show "?run (map snd (take (Suc i) rest)) (fadd c split) < r" by (simp add: p)
  qed
  then have "select_loop fadd r (fadd c split) rest = None" by (rule Cons.IH)
  with first show ?case by (simp add: p)
qed

lemma cumulative_weight_mono:
  assumes "\<forall>i<length ts. cumulative_weight fadd ts i \<le> cumulative_weight fadd ts (Suc i)"
    and "m \<le> n"
  shows "cumulative_weight fadd ts m \<le> cumulative_weight fadd ts n"
proof -
  have "cumulative_weight fadd ts i \<le> cumulative_weight fadd ts (Suc i)" for i
  proof (cases "i < length ts")
    case True
    with assms(1) show ?thesis by blast
  next
    case False
    then show ?thesis by (simp add: cumulative_weight_def)
  qed
  then show ?thesis using assms(2) by (rule lift_Suc_mono_le)
qed

lemma init_accepts:
  "ABTester_init fsum arg = Inr t \<Longrightarrow>
     traffic_split t \<noteq> [] \<and> request_log t = []
     \<and> float_0_99 \<le> fsum (map snd (traffic_split t))
     \<and> fsum (map snd (traffic_split t)) \<le> float_1_01"
  by (auto simp: ABTester_init_def Let_def default_traffic_split_def
           split: option.splits if_splits)

lemma init_nonempty:
  "d \<noteq> [] \<Longrightarrow>
   ABTester_init fsum (Some d) =
     (if float_0_99 \<le> fsum (map snd d) \<and> fsum (map snd d) \<le> float_1_01
      then Inr \<lparr>traffic_split = d, request_log = []\<rparr>
      else Inl ValueError)"
  by (simp add: ABTester_init_def Let_def)

lemma float_bounds_order:
  "float_0_99 \<le> float_1_01" "float_0_99 \<le> 1" "1 \<le> float_1_01"
  "float_0_99 \<le> 127 / 128" "127 / 128 \<le> float_1_01" "\<not> float_0_99 \<le> 0"
  by (simp_all add: float_0_99_def float_1_01_def)

text \<open>
  The constructor does not look at the sign of a weight, and a negative weight lowers the
  cumulative weight: with \<open>{a: 0.25, b: 1.0, c: -0.2578125}\<close>, accepted with the sum
  \<open>0.9921875\<close>, the draw \<open>0.99609375\<close> is above the final cumulative weight and the loop has
  returned \<open>b\<close> before reaching it.
\<close>

lemma select_model_negative_weight:
  "ABTester_init double_sum (Some [(''a'', 1 / 4), (''b'', 1), (''c'', - 33 / 128)])
     = Inr \<lparr>traffic_split = [(''a'', 1 / 4), (''b'', 1), (''c'', - 33 / 128)], request_log = []\<rparr>
   \<and> cumulative_weight double_add [(''a'', 1 / 4), (''b'', 1), (''c'', - 33 / 128)] 3 = 127 / 128
   \<and> fst (select_model double_add (255 / 256) None
            \<lparr>traffic_split = [(''a'', 1 / 4), (''b'', 1), (''c'', - 33 / 128)], request_log = []\<rparr>) = Inr ''b''"
proof -
  have h: "ABTester_init double_sum (Some [(''a'', 1 / 4), (''b'', 1), (''c'', - 33 / 128)])
     = Inr \<lparr>traffic_split = [(''a'', 1 / 4), (''b'', 1), (''c'', - 33 / 128)], request_log = []\<rparr>"
    by (simp add: ABTester_init_def double_eval float_0_99_def float_1_01_def)
  have c: "cumulative_weight double_add [(''a'', 1 / 4), (''b'', 1), (''c'', - 33 / 128)] 3 = 127 / 128"
    by (simp add: cumulative_weight_def numeral_3_eq_3 double_eval)
  have f: "fst (select_model double_add (255 / 256) None
            \<lparr>traffic_split = [(''a'', 1 / 4), (''b'', 1), (''c'', - 33 / 128)], request_log = []\<rparr>) = Inr ''b''"
    by (simp add: select_model_def double_eval)
  from h c f show ?thesis by blast
qed

subsection \<open>The claims on selection\<close>

text \<open>
  Claim C10. For every tester whose traffic split is one that the constructor accepted,
  whatever its request log holds by now, and for every drawn value \<open>r\<close> (in particular every
  \<open>r\<close> in \<open>[0, 1)\<close>): the split is not empty, its weights sum, as the constructor computed the
  sum, to a value between the doubles \<open>0.99\<close> and \<open>1.01\<close>, and \<open>select_model\<close> returns a key
  of \<open>traffic_split\<close> and leaves the tester as it was. Neither the loop nor the fallback
  \<^verbatim>\<open>keys()[0]\<close> can raise, however the additions are rounded.
\<close>

theorem select_model_total:
  assumes "ABTester_init float_sum arg = Inr t0"
    and "traffic_split t = traffic_split t0"
  shows "traffic_split t \<noteq> []
       \<and> float_0_99 \<le> float_sum (map snd (traffic_split t))
       \<and> float_sum (map snd (traffic_split t)) \<le> float_1_01
       \<and> (\<exists>k. select_model float_add r uid t = (Inr k, t) \<and> k \<in> fst ` set (traffic_split t))"
proof -
  from init_accepts [OF assms(1)] assms(2)
  have ne: "traffic_split t \<noteq> []"
    and lo: "float_0_99 \<le> float_sum (map snd (traffic_split t))"
    and hi: "float_sum (map snd (traffic_split t)) \<le> float_1_01"
    by simp_all
  have "\<exists>k. select_model float_add r uid t = (Inr k, t) \<and> k \<in> fst ` set (traffic_split t)"
  proof (cases "select_loop float_add r 0 (traffic_split t)")
    case None
    from ne obtain p rest where "traffic_split t = p # rest" by (cases "traffic_split t") auto
    with None show ?thesis by (simp add: select_model_def)
  next
    case (Some mv)
    with select_loop_key [OF Some] show ?thesis by (simp add: select_model_def)
  qed
  with ne lo hi show ?thesis by simp
qed

theorem select_model_total_witness:
  "ABTester_init double_sum (Some [(''v1'', float_0_99)]) = Inr \<lparr>traffic_split = [(''v1'', float_0_99)], request_log = []\<rparr>
   \<and> select_model double_add (3 / 4) None
        \<lparr>traffic_split = [(''v1'', float_0_99)], request_log = [\<lparr>request_id = ''a'', timestamp = ''t'', model_version = ''v1'', prediction = 1, churn_probability = 9 / 10, latency_ms = 7\<rparr>]\<rparr>
       = (Inr ''v1'',
          \<lparr>traffic_split = [(''v1'', float_0_99)], request_log = [\<lparr>request_id = ''a'', timestamp = ''t'', model_version = ''v1'', prediction = 1, churn_probability = 9 / 10, latency_ms = 7\<rparr>]\<rparr>)"
proof -
  let ?fresh = "\<lparr>traffic_split = [(''v1'', float_0_99)], request_log = []\<rparr>"
  let ?t = "\<lparr>traffic_split = [(''v1'', float_0_99)], request_log = [\<lparr>request_id = ''a'', timestamp = ''t'', model_version = ''v1'', prediction = 1, churn_probability = 9 / 10, latency_ms = 7\<rparr>]\<rparr>"
  have h: "ABTester_init double_sum (Some [(''v1'', float_0_99)]) = Inr ?fresh"
    by (simp add: ABTester_init_def double_eval float_0_99_def float_1_01_def)
  have same: "traffic_split ?t = traffic_split ?fresh" by simp
  from select_model_total [OF h same, of double_add "3 / 4" None]
  obtain k where "select_model double_add (3 / 4) None ?t = (Inr k, ?t)"
    and "k \<in> fst ` set (traffic_split ?t)"
    by blast
  then have "select_model double_add (3 / 4) None ?t = (Inr ''v1'', ?t)" by simp
  with h show ?thesis by simp
qed

text \<open>
  Claim C5. For every tester whose traffic split is one that the constructor accepted, and
  every drawn value \<open>r\<close> that does not exceed the total weight, that is, the cumulative weight
  the loop reaches after the last version: \<open>select_model\<close> walks the versions in insertion
  order and returns the version at the first position \<open>i\<close> whose cumulative weight is at
  least \<open>r\<close>; the cumulative weight of every earlier position is below \<open>r\<close>. The cumulative
  weights are the values of \<^verbatim>\<open>cumulative\<close> in the loop, for whatever addition of doubles.
\<close>

theorem select_model_first_reaching:
  assumes "ABTester_init float_sum arg = Inr t0"
    and "traffic_split t = traffic_split t0"
    and "r \<le> cumulative_weight float_add (traffic_split t) (length (traffic_split t))"
  shows "\<exists>i<length (traffic_split t).
           select_model float_add r uid t = (Inr (fst (traffic_split t ! i)), t)
         \<and> r \<le> cumulative_weight float_add (traffic_split t) (Suc i)
         \<and> (\<forall>j<i. cumulative_weight float_add (traffic_split t) (Suc j) < r)"
proof -
  from init_accepts [OF assms(1)] assms(2) have ne: "traffic_split t \<noteq> []" by simp
  from assms(3)
  have "r \<le> fold (\<lambda>w acc. float_add acc w) (map snd (traffic_split t)) 0"
    by (simp add: cumulative_weight_def)
  from select_loop_first [OF this ne] obtain i where
    "i < length (traffic_split t)"
    "select_loop float_add r 0 (traffic_split t) = Some (fst (traffic_split t ! i))"
    "r \<le> cumulative_weight float_add (traffic_split t) (Suc i)"
    "\<forall>j<i. cumulative_weight float_add (traffic_split t) (Suc j) < r"
    unfolding cumulative_weight_def by blast
  then show ?thesis by (auto simp: select_model_def)
qed

text \<open>
  At the policy \<open>{a: 0.1, b: 0.2, c: 0.7}\<close>, a tester that has logged a request and the draw
  \<open>0.30000000000000004\<close>, the cumulative weight after \<open>b\<close> is the rounded \<open>0.1 + 0.2\<close>, which
  reaches the draw: the version is \<open>b\<close>.
\<close>

theorem select_model_first_reaching_witness:
  "ABTester_init double_sum (Some [(''a'', round_double (1 / 10)), (''b'', round_double (2 / 10)), (''c'', round_double (7 / 10))])
     = Inr \<lparr>traffic_split = [(''a'', round_double (1 / 10)), (''b'', round_double (2 / 10)), (''c'', round_double (7 / 10))], request_log = []\<rparr>
   \<and> 1351079888211149 / 4503599627370496 \<le> cumulative_weight double_add [(''a'', round_double (1 / 10)), (''b'', round_double (2 / 10)), (''c'', round_double (7 / 10))] 3
   \<and> cumulative_weight double_add [(''a'', round_double (1 / 10)), (''b'', round_double (2 / 10)), (''c'', round_double (7 / 10))] 1 < 1351079888211149 / 4503599627370496
   \<and> select_model double_add (1351079888211149 / 4503599627370496) None
        \<lparr>traffic_split = [(''a'', round_double (1 / 10)), (''b'', round_double (2 / 10)), (''c'', round_double (7 / 10))], request_log = [\<lparr>request_id = ''a'', timestamp = ''t'', model_version = ''v1'', prediction = 1, churn_probability = 9 / 10, latency_ms = 7\<rparr>]\<rparr>
       = (Inr ''b'',
          \<lparr>traffic_split = [(''a'', round_double (1 / 10)), (''b'', round_double (2 / 10)), (''c'', round_double (7 / 10))], request_log = [\<lparr>request_id = ''a'', timestamp = ''t'', model_version = ''v1'', prediction = 1, churn_probability = 9 / 10, latency_ms = 7\<rparr>]\<rparr>)"
proof -
  let ?P = "[(''a'', round_double (1 / 10)), (''b'', round_double (2 / 10)), (''c'', round_double (7 / 10))]"
  let ?r = "1351079888211149 / 4503599627370496 :: real"
  let ?fresh = "\<lparr>traffic_split = ?P, request_log = []\<rparr>"
  let ?t = "\<lparr>traffic_split = ?P, request_log = [\<lparr>request_id = ''a'', timestamp = ''t'', model_version = ''v1'', prediction = 1, churn_probability = 9 / 10, latency_ms = 7\<rparr>]\<rparr>"
  have c1: "cumulative_weight double_add ?P (Suc 0) = 3602879701896397 / 36028797018963968"
    by (simp add: cumulative_weight_def double_eval)
  have c2: "cumulative_weight double_add ?P (Suc (Suc 0)) = ?r"
    by (simp add: cumulative_weight_def double_eval)
  have c3: "cumulative_weight double_add ?P (length ?P) = 1"
    by (simp add: cumulative_weight_def double_eval)
  have h: "ABTester_init double_sum (Some ?P) = Inr ?fresh"
    by (simp add: ABTester_init_def double_eval float_0_99_def float_1_01_def)
  have same: "traffic_split ?t = traffic_split ?fresh" by simp
  have le: "?r \<le> cumulative_weight double_add (traffic_split ?t) (length (traffic_split ?t))"
    using c3 by simp
  from select_model_first_reaching [OF h same le, of None] obtain i where
    i: "i < length (traffic_split ?t)"
    and sel: "select_model double_add ?r None ?t = (Inr (fst (traffic_split ?t ! i)), ?t)"
    and ge: "?r \<le> cumulative_weight double_add (traffic_split ?t) (Suc i)"
    and lt: "\<forall>j<i. cumulative_weight double_add (traffic_split ?t) (Suc j) < ?r"
    by blast
  have "i \<noteq> 0"
  proof
    assume "i = 0"
    with ge c1 show False by simp
  qed
  moreover have "\<not> Suc 0 < i"
  proof
    assume "Suc 0 < i"
    with lt have "cumulative_weight double_add (traffic_split ?t) (Suc (Suc 0)) < ?r" by blast
    with c2 show False by simp
  qed
  ultimately have "i = Suc 0" by simp
  with sel have s: "select_model double_add ?r None ?t = (Inr ''b'', ?t)" by simp
  have a: "?r \<le> cumulative_weight double_add ?P 3" using c3 by (simp add: numeral_3_eq_3)
  have b: "cumulative_weight double_add ?P 1 < ?r" using c1 by simp
  from h a b s show ?thesis by blast
qed

text \<open>
  Claim C3, as amended. For every tester whose traffic split is one that the constructor
  accepted and whose cumulative weight never decreases from one version to the next, and
  for every drawn value \<open>r\<close>: if \<open>r\<close> exceeds the final cumulative weight, \<open>select_model\<close>
  does not fail and returns the first version in the policy's iteration order (the fallback
  of the source is \<^verbatim>\<open>list(self.traffic_split.keys())[0]\<close>), not the last one.
\<close>

theorem select_model_fallback_first:
  assumes "ABTester_init float_sum arg = Inr t0"
    and "traffic_split t = traffic_split t0"
    and "\<forall>i<length (traffic_split t).
           cumulative_weight float_add (traffic_split t) i
             \<le> cumulative_weight float_add (traffic_split t) (Suc i)"
    and "cumulative_weight float_add (traffic_split t) (length (traffic_split t)) < r"
  shows "\<exists>k w rest. traffic_split t = (k, w) # rest \<and> select_model float_add r uid t = (Inr k, t)"
proof -
  from init_accepts [OF assms(1)] assms(2) have ne: "traffic_split t \<noteq> []" by simp
  then obtain k w rest where ts: "traffic_split t = (k, w) # rest"
    by (cases "traffic_split t") auto
  have "\<forall>i<length (traffic_split t).
          fold (\<lambda>w acc. float_add acc w) (map snd (take (Suc i) (traffic_split t))) 0 < r"
  proof (intro allI impI)
    fix i assume "i < length (traffic_split t)"
    then have "Suc i \<le> length (traffic_split t)" by simp
    from cumulative_weight_mono [OF assms(3) this] assms(4)
    have "cumulative_weight float_add (traffic_split t) (Suc i) < r" by simp
    then show "fold (\<lambda>w acc. float_add acc w) (map snd (take (Suc i) (traffic_split t))) 0 < r"
      by (simp only: cumulative_weight_def)
  qed
  then have "select_loop float_add r 0 (traffic_split t) = None" by (rule select_loop_none)
  with ts show ?thesis by (simp add: select_model_def)
qed

theorem select_model_fallback_first_witness:
  "ABTester_init double_sum (Some [(''v1'', 1 / 2), (''v2'', 63 / 128)]) = Inr \<lparr>traffic_split = [(''v1'', 1 / 2), (''v2'', 63 / 128)], request_log = []\<rparr>
   \<and> cumulative_weight double_add [(''v1'', 1 / 2), (''v2'', 63 / 128)] 0 \<le> cumulative_weight double_add [(''v1'', 1 / 2), (''v2'', 63 / 128)] 1
   \<and> cumulative_weight double_add [(''v1'', 1 / 2), (''v2'', 63 / 128)] 1 \<le> cumulative_weight double_add [(''v1'', 1 / 2), (''v2'', 63 / 128)] 2
   \<and> cumulative_weight double_add [(''v1'', 1 / 2), (''v2'', 63 / 128)] 2 < 255 / 256
   \<and> select_model double_add (255 / 256) None
        \<lparr>traffic_split = [(''v1'', 1 / 2), (''v2'', 63 / 128)], request_log = [\<lparr>request_id = ''a'', timestamp = ''t'', model_version = ''v1'', prediction = 1, churn_probability = 9 / 10, latency_ms = 7\<rparr>]\<rparr>
       = (Inr ''v1'',
          \<lparr>traffic_split = [(''v1'', 1 / 2), (''v2'', 63 / 128)], request_log = [\<lparr>request_id = ''a'', timestamp = ''t'', model_version = ''v1'', prediction = 1, churn_probability = 9 / 10, latency_ms = 7\<rparr>]\<rparr>)"
proof -
  let ?P = "[(''v1'', 1 / 2), (''v2'', 63 / 128)] :: (string \<times> real) list"
  let ?fresh = "\<lparr>traffic_split = ?P, request_log = []\<rparr>"
  let ?t = "\<lparr>traffic_split = ?P, request_log = [\<lparr>request_id = ''a'', timestamp = ''t'', model_version = ''v1'', prediction = 1, churn_probability = 9 / 10, latency_ms = 7\<rparr>]\<rparr>"
  have c0: "cumulative_weight double_add ?P 0 = 0"
    by (simp add: cumulative_weight_def)
  have c1: "cumulative_weight double_add ?P (Suc 0) = 1 / 2"
    by (simp add: cumulative_weight_def double_eval)
  have c2: "cumulative_weight double_add ?P (Suc (Suc 0)) = 127 / 128"
    by (simp add: cumulative_weight_def double_eval)
  have h: "ABTester_init double_sum (Some ?P) = Inr ?fresh"
    by (simp add: ABTester_init_def double_eval float_0_99_def float_1_01_def)
  have same: "traffic_split ?t = traffic_split ?fresh" by simp
  have up: "\<forall>i<length (traffic_split ?t).
              cumulative_weight double_add (traffic_split ?t) i
                \<le> cumulative_weight double_add (traffic_split ?t) (Suc i)"
  proof (intro allI impI)
    fix i assume "i < length (traffic_split ?t)"
    then have "i = 0 \<or> i = Suc 0" by auto
    then show "cumulative_weight double_add (traffic_split ?t) i
                 \<le> cumulative_weight double_add (traffic_split ?t) (Suc i)"
      using c0 c1 c2 by auto
  qed
  have above: "cumulative_weight double_add (traffic_split ?t) (length (traffic_split ?t)) < 255 / 256"
    using c2 by simp
  from select_model_fallback_first [OF h same up above, of None]
  have s: "select_model double_add (255 / 256) None ?t = (Inr ''v1'', ?t)" by auto
  have a: "cumulative_weight double_add ?P 0 \<le> cumulative_weight double_add ?P 1"
    using c0 c1 by simp
  have b: "cumulative_weight double_add ?P 1 \<le> cumulative_weight double_add ?P 2"
    using c1 c2 by (simp add: numeral_2_eq_2)
  have c: "cumulative_weight double_add ?P 2 < 255 / 256"
    using c2 by (simp add: numeral_2_eq_2)
  from h a b c s show ?thesis by blast
qed

text \<open>
  The claim as written fails: with the accepted policy \<open>{v1: 0.5, v2: 0.4921875}\<close>, whose
  weights add up without rounding to \<open>0.9921875\<close>, and the draw \<open>0.99609375\<close>, above that
  total, the result is \<open>v1\<close>, while the last version is \<open>v2\<close>.
\<close>

theorem select_model_fallback_last_counterexample:
  "ABTester_init double_sum (Some [(''v1'', 1 / 2), (''v2'', 63 / 128)]) = Inr \<lparr>traffic_split = [(''v1'', 1 / 2), (''v2'', 63 / 128)], request_log = []\<rparr>
   \<and> (0::real) \<le> 255 / 256 \<and> (255 / 256 :: real) < 1
   \<and> cumulative_weight double_add [(''v1'', 1 / 2), (''v2'', 63 / 128)] 2 = 127 / 128
   \<and> sum_list (map snd ([(''v1'', 1 / 2), (''v2'', 63 / 128)] :: (string \<times> real) list)) = 127 / 128
   \<and> (127 / 128 :: real) < 255 / 256
   \<and> fst (select_model double_add (255 / 256) None \<lparr>traffic_split = [(''v1'', 1 / 2), (''v2'', 63 / 128)], request_log = []\<rparr>) = Inr ''v1''
   \<and> last (map fst ([(''v1'', 1 / 2), (''v2'', 63 / 128)] :: (string \<times> real) list)) = ''v2''
   \<and> ''v1'' \<noteq> ''v2''"
proof -
  let ?P = "[(''v1'', 1 / 2), (''v2'', 63 / 128)] :: (string \<times> real) list"
  have h: "ABTester_init double_sum (Some ?P) = Inr \<lparr>traffic_split = ?P, request_log = []\<rparr>"
    by (simp add: ABTester_init_def double_eval float_0_99_def float_1_01_def)
  have d1: "double_add 0 (1 / 2) = 1 / 2"
    by (simp add: double_eval)
  have d2: "double_add (1 / 2) (63 / 128) = 127 / 128"
    by (simp add: double_eval)
  have c: "cumulative_weight double_add ?P 2 = 127 / 128"
    by (simp add: cumulative_weight_def numeral_2_eq_2 d1 d2)
  have e: "sum_list (map snd ?P) = 127 / 128" by simp
  have f: "fst (select_model double_add (255 / 256) None \<lparr>traffic_split = ?P, request_log = []\<rparr>) = Inr ''v1''"
    by (simp add: select_model_def d1 d2)
  have g: "(0::real) \<le> 255 / 256 \<and> (255 / 256 :: real) < 1 \<and> (127 / 128 :: real) < 255 / 256"
    by simp
  have l: "last (map fst ?P) = ''v2'' \<and> ''v1'' \<noteq> ''v2''" by simp
  from h c e f g l show ?thesis by blast
qed

subsection \<open>The claims on validation\<close>

text \<open>
  Claim C4, as amended. The constructor checks the sum of the weights and nothing else: a
  traffic split containing a negative weight is rejected with \<open>ValueError\<close> exactly when the
  sum of its weights, as \<^verbatim>\<open>sum\<close> computes it, lies outside the interval from the double
  \<open>0.99\<close> to the double \<open>1.01\<close>, and is accepted, and stored as given, when the sum is inside.
\<close>

theorem init_negative_weight:
  assumes "(k, w) \<in> set d" and "w < 0"
  shows "ABTester_init float_sum (Some d) =
           (if float_0_99 \<le> float_sum (map snd d) \<and> float_sum (map snd d) \<le> float_1_01
            then Inr \<lparr>traffic_split = d, request_log = []\<rparr>
            else Inl ValueError)"
proof -
  from assms(1) have "d \<noteq> []" by auto
  then show ?thesis by (rule init_nonempty)
qed

text \<open>
  Accepted are \<open>{v1: 1.5, v2: -0.5}\<close>, of sum \<open>1.0\<close>, and \<open>{v1: 1.49, v2: -0.5}\<close>, of sum the
  double \<open>0.99\<close>; rejected is \<open>{v1: 1.7, v2: -0.5}\<close>, of sum \<open>1.2\<close>.
\<close>

theorem init_negative_weight_witness:
  "(''v2'', - 1 / 2 :: real) \<in> set [(''v1'', 3 / 2), (''v2'', - 1 / 2)] \<and> (- 1 / 2 :: real) < 0
   \<and> ABTester_init double_sum (Some [(''v1'', 3 / 2), (''v2'', - 1 / 2)])
       = Inr \<lparr>traffic_split = [(''v1'', 3 / 2), (''v2'', - 1 / 2)], request_log = []\<rparr>
   \<and> ABTester_init double_sum (Some [(''v1'', round_double (149 / 100)), (''v2'', - 1 / 2)])
       = Inr \<lparr>traffic_split = [(''v1'', round_double (149 / 100)), (''v2'', - 1 / 2)], request_log = []\<rparr>
   \<and> ABTester_init double_sum (Some [(''v1'', round_double (17 / 10)), (''v2'', - 1 / 2)]) = Inl ValueError"
proof -
  have m1: "(''v2'', - 1 / 2 :: real) \<in> set [(''v1'', 3 / 2), (''v2'', - 1 / 2)]" by simp
  have m2: "(''v2'', - 1 / 2 :: real) \<in> set [(''v1'', round_double (149 / 100)), (''v2'', - 1 / 2)]" by simp
  have m3: "(''v2'', - 1 / 2 :: real) \<in> set [(''v1'', round_double (17 / 10)), (''v2'', - 1 / 2)]" by simp
  have neg: "(- 1 / 2 :: real) < 0" by simp
  have b1: "float_0_99 \<le> double_sum (map snd [(''v1'', 3 / 2), (''v2'', - 1 / 2)])
          \<and> double_sum (map snd [(''v1'', 3 / 2), (''v2'', - 1 / 2)]) \<le> float_1_01"
    by (simp add: double_eval float_0_99_def float_1_01_def)
  have b2: "float_0_99 \<le> double_sum (map snd [(''v1'', round_double (149 / 100)), (''v2'', - 1 / 2)])
          \<and> double_sum (map snd [(''v1'', round_double (149 / 100)), (''v2'', - 1 / 2)]) \<le> float_1_01"
    by (simp add: double_eval float_0_99_def float_1_01_def)
  have b3: "\<not> double_sum (map snd [(''v1'', round_double (17 / 10)), (''v2'', - 1 / 2)]) \<le> float_1_01"
    by (simp add: double_eval float_1_01_def)
  have r1: "ABTester_init double_sum (Some [(''v1'', 3 / 2), (''v2'', - 1 / 2)])
       = Inr \<lparr>traffic_split = [(''v1'', 3 / 2), (''v2'', - 1 / 2)], request_log = []\<rparr>"
    using init_negative_weight [OF m1 neg, of double_sum] b1 by simp
  have r2: "ABTester_init double_sum (Some [(''v1'', round_double (149 / 100)), (''v2'', - 1 / 2)])
       = Inr \<lparr>traffic_split = [(''v1'', round_double (149 / 100)), (''v2'', - 1 / 2)], request_log = []\<rparr>"
    using init_negative_weight [OF m2 neg, of double_sum] b2 by simp
  have r3: "ABTester_init double_sum (Some [(''v1'', round_double (17 / 10)), (''v2'', - 1 / 2)]) = Inl ValueError"
    using init_negative_weight [OF m3 neg, of double_sum] b3 by simp
  from m1 neg r1 r2 r3 show ?thesis by blast
qed

text \<open>
  The claim as written fails: \<open>{v1: 1.5, v2: -0.5}\<close> has a negative weight, sums without
  rounding to \<open>1.0\<close>, and is accepted.
\<close>

theorem init_negative_weight_counterexample:
  "ABTester_init double_sum (Some [(''v1'', 3 / 2), (''v2'', - 1 / 2)])
     = Inr \<lparr>traffic_split = [(''v1'', 3 / 2), (''v2'', - 1 / 2)], request_log = []\<rparr>
   \<and> (- 1 / 2 :: real) < 0
   \<and> double_sum (map snd [(''v1'', 3 / 2), (''v2'', - 1 / 2)]) = 1"
proof -
  have s: "double_sum (map snd [(''v1'', 3 / 2), (''v2'', - 1 / 2)]) = 1"
    by (simp add: double_eval)
  have h: "ABTester_init double_sum (Some [(''v1'', 3 / 2), (''v2'', - 1 / 2)])
     = Inr \<lparr>traffic_split = [(''v1'', 3 / 2), (''v2'', - 1 / 2)], request_log = []\<rparr>"
    by (simp add: ABTester_init_def double_eval float_0_99_def float_1_01_def)
  have n: "(- 1 / 2 :: real) < 0" by simp
  from h n s show ?thesis by blast
qed

text \<open>
  Claim C7, as amended. For every non-empty traffic split, the constructor raises
  \<open>ValueError\<close> if and only if the sum of the weights, as \<^verbatim>\<open>sum\<close> computes it, lies outside
  the interval from the double \<open>0.99\<close> to the double \<open>1.01\<close>, and an accepted split is stored
  exactly as given, never normalised. Hence a split whose sum is the double \<open>0.8\<close> or \<open>1.2\<close>
  is rejected and one whose sum is the double \<open>0.999\<close> or \<open>1.005\<close> is accepted.
\<close>

theorem init_validates_sum:
  assumes "d \<noteq> []"
  shows "(ABTester_init float_sum (Some d) = Inl ValueError
            \<longleftrightarrow> \<not> (float_0_99 \<le> float_sum (map snd d) \<and> float_sum (map snd d) \<le> float_1_01))
       \<and> (ABTester_init float_sum (Some d) = Inr \<lparr>traffic_split = d, request_log = []\<rparr>
            \<longleftrightarrow> float_0_99 \<le> float_sum (map snd d) \<and> float_sum (map snd d) \<le> float_1_01)
       \<and> (float_sum (map snd d) = round_double (8 / 10)
            \<or> float_sum (map snd d) = round_double (12 / 10)
          \<longrightarrow> ABTester_init float_sum (Some d) = Inl ValueError)
       \<and> (float_sum (map snd d) = round_double (999 / 1000)
            \<or> float_sum (map snd d) = round_double (1005 / 1000)
          \<longrightarrow> ABTester_init float_sum (Some d) = Inr \<lparr>traffic_split = d, request_log = []\<rparr>)"
proof -
  have v08: "round_double (8 / 10) < float_0_99"
    by (simp add: double_eval float_0_99_def)
  have v12: "float_1_01 < round_double (12 / 10)"
    by (simp add: double_eval float_1_01_def)
  have v0999: "float_0_99 \<le> round_double (999 / 1000) \<and> round_double (999 / 1000) \<le> float_1_01"
    by (simp add: double_eval float_0_99_def float_1_01_def)
  have v1005: "float_0_99 \<le> round_double (1005 / 1000) \<and> round_double (1005 / 1000) \<le> float_1_01"
    by (simp add: double_eval float_0_99_def float_1_01_def)
  from init_nonempty [OF assms, of float_sum] v08 v12 v0999 v1005 show ?thesis
    by (auto split: if_splits)
qed

text \<open>
  Rejected are \<open>{0.4, 0.4}\<close> and \<open>{0.6, 0.6}\<close>, of sums \<open>0.8\<close> and \<open>1.2\<close>; accepted are
  \<open>{0.5, 0.499}\<close> and \<open>{0.5, 0.505}\<close>, of sums \<open>0.999\<close> and \<open>1.005\<close>, and the two splits
  \<open>{v1: 0.99}\<close> and \<open>{v1: 1.01}\<close> on the bounds.
\<close>

theorem init_validates_sum_witness:
  "ABTester_init double_sum (Some [(''v1'', round_double (4 / 10)), (''v2'', round_double (4 / 10))]) = Inl ValueError
   \<and> ABTester_init double_sum (Some [(''v1'', round_double (6 / 10)), (''v2'', round_double (6 / 10))]) = Inl ValueError
   \<and> ABTester_init double_sum (Some [(''v1'', 1 / 2), (''v2'', round_double (499 / 1000))])
       = Inr \<lparr>traffic_split = [(''v1'', 1 / 2), (''v2'', round_double (499 / 1000))], request_log = []\<rparr>
   \<and> ABTester_init double_sum (Some [(''v1'', 1 / 2), (''v2'', round_double (505 / 1000))])
       = Inr \<lparr>traffic_split = [(''v1'', 1 / 2), (''v2'', round_double (505 / 1000))], request_log = []\<rparr>
   \<and> ABTester_init double_sum (Some [(''v1'', float_0_99)]) = Inr \<lparr>traffic_split = [(''v1'', float_0_99)], request_log = []\<rparr>
   \<and> ABTester_init double_sum (Some [(''v1'', float_1_01)]) = Inr \<lparr>traffic_split = [(''v1'', float_1_01)], request_log = []\<rparr>"
proof -
  have a: "[(''v1'', round_double (4 / 10)), (''v2'', round_double (4 / 10))] \<noteq> []"
    and b: "[(''v1'', round_double (6 / 10)), (''v2'', round_double (6 / 10))] \<noteq> []"
    and c: "[(''v1'', 1 / 2), (''v2'', round_double (499 / 1000))] \<noteq> []"
    and d: "[(''v1'', 1 / 2), (''v2'', round_double (505 / 1000))] \<noteq> []"
    and e: "[(''v1'', float_0_99)] \<noteq> []"
    and f: "[(''v1'', float_1_01)] \<noteq> []"
    by simp_all
  have sa: "double_sum (map snd [(''v1'', round_double (4 / 10)), (''v2'', round_double (4 / 10))]) = round_double (8 / 10)"
    by (simp add: double_eval)
  have sb: "double_sum (map snd [(''v1'', round_double (6 / 10)), (''v2'', round_double (6 / 10))]) = round_double (12 / 10)"
    by (simp add: double_eval)
  have sc: "double_sum (map snd [(''v1'', 1 / 2), (''v2'', round_double (499 / 1000))]) = round_double (999 / 1000)"
    by (simp add: double_eval)
  have sd: "double_sum (map snd [(''v1'', 1 / 2), (''v2'', round_double (505 / 1000))]) = round_double (1005 / 1000)"
    by (simp add: double_eval)
  have se: "float_0_99 \<le> double_sum (map snd [(''v1'', float_0_99)])
          \<and> double_sum (map snd [(''v1'', float_0_99)]) \<le> float_1_01"
    by (simp add: double_eval float_0_99_def float_1_01_def)
  have sf: "float_0_99 \<le> double_sum (map snd [(''v1'', float_1_01)])
          \<and> double_sum (map snd [(''v1'', float_1_01)]) \<le> float_1_01"
    by (simp add: double_eval float_0_99_def float_1_01_def)
  from init_validates_sum [OF a, of double_sum] sa
  have ra: "ABTester_init double_sum (Some [(''v1'', round_double (4 / 10)), (''v2'', round_double (4 / 10))]) = Inl ValueError"
    by blast
  from init_validates_sum [OF b, of double_sum] sb
  have rb: "ABTester_init double_sum (Some [(''v1'', round_double (6 / 10)), (''v2'', round_double (6 / 10))]) = Inl ValueError"
    by blast
  from init_validates_sum [OF c, of double_sum] sc
  have rc: "ABTester_init double_sum (Some [(''v1'', 1 / 2), (''v2'', round_double (499 / 1000))])
       = Inr \<lparr>traffic_split = [(''v1'', 1 / 2), (''v2'', round_double (499 / 1000))], request_log = []\<rparr>"
    by blast
  from init_validates_sum [OF d, of double_sum] sd
  have rd: "ABTester_init double_sum (Some [(''v1'', 1 / 2), (''v2'', round_double (505 / 1000))])
       = Inr \<lparr>traffic_split = [(''v1'', 1 / 2), (''v2'', round_double (505 / 1000))], request_log = []\<rparr>"
    by blast
  from init_validates_sum [OF e, of double_sum] se
  have re: "ABTester_init double_sum (Some [(''v1'', float_0_99)]) = Inr \<lparr>traffic_split = [(''v1'', float_0_99)], request_log = []\<rparr>"
    by blast
  from init_validates_sum [OF f, of double_sum] sf
  have rf: "ABTester_init double_sum (Some [(''v1'', float_1_01)]) = Inr \<lparr>traffic_split = [(''v1'', float_1_01)], request_log = []\<rparr>"
    by blast
  from ra rb rc rd re rf show ?thesis by blast
qed

text \<open>
  The claim as written fails at the empty dictionary, which \<^verbatim>\<open>traffic_split or {...}\<close>
  replaces by the default: its weights sum to \<open>0\<close>, outside the tolerance, yet construction
  succeeds, and the stored split is not the given one.
\<close>

theorem init_empty_split_counterexample:
  "ABTester_init double_sum (Some [])
     = Inr \<lparr>traffic_split = [(''v1'', 5 / 10), (''v2'', 5 / 10)], request_log = []\<rparr>
   \<and> double_sum (map snd ([] :: (string \<times> real) list)) = 0
   \<and> \<not> (float_0_99 \<le> (0 :: real) \<and> (0 :: real) \<le> float_1_01)
   \<and> [(''v1'', 5 / 10), (''v2'', 5 / 10)] \<noteq> ([] :: (string \<times> real) list)"
proof -
  have s: "double_sum (map snd default_traffic_split) = 1"
    by (simp add: default_traffic_split_def double_eval)
  have "ABTester_init double_sum (Some [])
      = Inr \<lparr>traffic_split = default_traffic_split, request_log = []\<rparr>"
    using s by (simp add: ABTester_init_def Let_def float_bounds_order)
  then have h: "ABTester_init double_sum (Some [])
      = Inr \<lparr>traffic_split = [(''v1'', 5 / 10), (''v2'', 5 / 10)], request_log = []\<rparr>"
    by (simp add: default_traffic_split_def)
  have z: "double_sum (map snd ([] :: (string \<times> real) list)) = 0"
    by (simp add: double_sum_def)
  have o: "\<not> (float_0_99 \<le> (0 :: real) \<and> (0 :: real) \<le> float_1_01)"
    using float_bounds_order(6) by simp
  have ne: "[(''v1'', 5 / 10), (''v2'', 5 / 10)] \<noteq> ([] :: (string \<times> real) list)" by simp
  from h z o ne show ?thesis by blast
qed

section \<open>Statistics\<close>

subsection \<open>Auxiliary facts\<close>

lemma map_of_dict_set: "map_of (dict_set d k v) = (map_of d)(k \<mapsto> v)"
  by (induction d k v rule: dict_set.induct) (auto simp: fun_eq_iff)

lemma version_stats_ok:
  assumes "model_requests \<noteq> []" and "whole_log \<noteq> []"
  shows "\<exists>s. version_stats whole_log model_requests = Inr s
             \<and> request_count s = length model_requests"
proof -
  from assms(1) obtain x xs where "model_requests = x # xs" by (cases model_requests) auto
  with assms(2) show ?thesis
    by (simp add: version_stats_def Let_def and_then_def py_div_def)
qed

lemma stats_loop_ok:
  assumes "whole_log \<noteq> []"
  shows "\<exists>ms. stats_loop whole_log ks acc = Inr ms
     \<and> (\<forall>v. (v \<in> set ks \<and> filter (\<lambda>r. model_version r = v) whole_log \<noteq> []
               \<longrightarrow> (\<exists>x. version_stats whole_log (filter (\<lambda>r. model_version r = v) whole_log) = Inr x
                        \<and> map_of ms v = Some x))
            \<and> (\<not> (v \<in> set ks \<and> filter (\<lambda>r. model_version r = v) whole_log \<noteq> [])
               \<longrightarrow> map_of ms v = map_of acc v))"
proof (induction ks arbitrary: acc)
  case Nil
  then show ?case by simp
next
  case (Cons k ks)
  let ?F = "\<lambda>v. filter (\<lambda>r. model_version r = v) whole_log"
  show ?case
  proof (cases "?F k = []")
    case True
    from Cons.IH [of acc] obtain ms where ms: "stats_loop whole_log ks acc = Inr ms"
      "\<forall>v. (v \<in> set ks \<and> ?F v \<noteq> [] \<longrightarrow> (\<exists>x. version_stats whole_log (?F v) = Inr x \<and> map_of ms v = Some x))
         \<and> (\<not> (v \<in> set ks \<and> ?F v \<noteq> []) \<longrightarrow> map_of ms v = map_of acc v)"
      by blast
    have "stats_loop whole_log (k # ks) acc = Inr ms" using True ms(1) by simp
    moreover have "\<forall>v. (v \<in> set (k # ks) \<and> ?F v \<noteq> [] \<longrightarrow> (\<exists>x. version_stats whole_log (?F v) = Inr x \<and> map_of ms v = Some x))
         \<and> (\<not> (v \<in> set (k # ks) \<and> ?F v \<noteq> []) \<longrightarrow> map_of ms v = map_of acc v)"
      using True ms(2) by auto
    ultimately show ?thesis by blast
  next
    case False
    from version_stats_ok [OF False assms] obtain s where s: "version_stats whole_log (?F k) = Inr s"
      by blast
    from Cons.IH [of "dict_set acc k s"] obtain ms where ms:
      "stats_loop whole_log ks (dict_set acc k s) = Inr ms"
      "\<forall>v. (v \<in> set ks \<and> ?F v \<noteq> [] \<longrightarrow> (\<exists>x. version_stats whole_log (?F v) = Inr x \<and> map_of ms v = Some x))
         \<and> (\<not> (v \<in> set ks \<and> ?F v \<noteq> []) \<longrightarrow> map_of ms v = map_of (dict_set acc k s) v)"
      by blast
    have "stats_loop whole_log (k # ks) acc = Inr ms"
      using False s ms(1) by (simp add: and_then_def)
    moreover have "\<forall>v. (v \<in> set (k # ks) \<and> ?F v \<noteq> [] \<longrightarrow> (\<exists>x. version_stats whole_log (?F v) = Inr x \<and> map_of ms v = Some x))
         \<and> (\<not> (v \<in> set (k # ks) \<and> ?F v \<noteq> []) \<longrightarrow> map_of ms v = map_of acc v)"
    proof (intro allI conjI impI)
      fix v assume v: "v \<in> set (k # ks) \<and> ?F v \<noteq> []"
      show "\<exists>x. version_stats whole_log (?F v) = Inr x \<and> map_of ms v = Some x"
      proof (cases "v \<in> set ks")
        case True
        with v ms(2) show ?thesis by blast
      next
        case notin: False
        with v have vk: "v = k" by simp
        from notin ms(2) have "map_of ms v = map_of (dict_set acc k s) v" by blast
        with vk s show ?thesis by (simp add: map_of_dict_set)
      qed
    next
      fix v assume v: "\<not> (v \<in> set (k # ks) \<and> ?F v \<noteq> [])"
      with False have vk: "v \<noteq> k" by auto
      from v have "\<not> (v \<in> set ks \<and> ?F v \<noteq> [])" by auto
      with ms(2) have "map_of ms v = map_of (dict_set acc k s) v" by blast
      with vk show "map_of ms v = map_of acc v" by (simp add: map_of_dict_set)
    qed
    ultimately show ?thesis by blast
  qed
qed

text \<open>No state makes \<open>get_statistics\<close> raise: every division and every \<^verbatim>\<open>min\<close>/\<^verbatim>\<open>max\<close> is guarded.\<close>

lemma get_statistics_total: "\<exists>s. get_statistics t = (Inr s, t)"
proof (cases "request_log t = []")
  case True
  then show ?thesis by (simp add: get_statistics_def)
next
  case False
  from stats_loop_ok [OF False, of "map fst (traffic_split t)" "[]"]
  obtain ms where "stats_loop (request_log t) (map fst (traffic_split t)) [] = Inr ms" by blast
  with False show ?thesis by (simp add: get_statistics_def and_then_def)
qed

subsection \<open>The claims on statistics\<close>

text \<open>
  Claim C2, as amended. For every non-empty record set and every version of the traffic
  policy, \<open>get_statistics\<close> succeeds and reports the total number of records; the version is
  in the per-version map exactly when at least one record matches it, and then with its
  positive count and with latency and rate fields that are all defined. A version with zero
  matching records is left out of the map.
\<close>

theorem get_statistics_reports_matched:
  assumes "request_log t \<noteq> []" and "v \<in> fst ` set (traffic_split t)"
  shows "\<exists>s. get_statistics t = (Inr s, t)
     \<and> total_requests s = length (request_log t)
     \<and> (if filter (\<lambda>r. model_version r = v) (request_log t) = []
        then map_of (models s) v = None
        else \<exists>x. map_of (models s) v = Some x
               \<and> version_stats (request_log t) (filter (\<lambda>r. model_version r = v) (request_log t)) = Inr x
               \<and> request_count x = length (filter (\<lambda>r. model_version r = v) (request_log t))
               \<and> 0 < request_count x)"
proof -
  let ?F = "filter (\<lambda>r. model_version r = v) (request_log t)"
  from stats_loop_ok [OF assms(1), of "map fst (traffic_split t)" "[]"]
  obtain ms where ms: "stats_loop (request_log t) (map fst (traffic_split t)) [] = Inr ms"
    and yes: "v \<in> set (map fst (traffic_split t)) \<and> ?F \<noteq> []
        \<longrightarrow> (\<exists>x. version_stats (request_log t) ?F = Inr x \<and> map_of ms v = Some x)"
    and no: "\<not> (v \<in> set (map fst (traffic_split t)) \<and> ?F \<noteq> []) \<longrightarrow> map_of ms v = map_of [] v"
    by blast
  let ?s = "\<lparr>total_requests = length (request_log t), models = ms\<rparr>"
  have run: "get_statistics t = (Inr ?s, t)"
    using assms(1) ms by (simp add: get_statistics_def and_then_def)
  have third: "if ?F = [] then map_of (models ?s) v = None
        else \<exists>x. map_of (models ?s) v = Some x \<and> version_stats (request_log t) ?F = Inr x
               \<and> request_count x = length ?F \<and> 0 < request_count x"
  proof (cases "?F = []")
    case True
    with no show ?thesis by simp
  next
    case False
    with yes assms(2) obtain x where x: "version_stats (request_log t) ?F = Inr x" "map_of ms v = Some x"
      by auto
    from version_stats_ok [OF False assms(1)] x(1) have "request_count x = length ?F" by simp
    with False x show ?thesis by simp
  qed
  from run third show ?thesis by (intro exI [of _ ?s]) simp
qed

theorem get_statistics_reports_matched_witness:
  "request_log \<lparr>traffic_split = [(''v1'', 5 / 10), (''v2'', 5 / 10)], request_log = [\<lparr>request_id = ''a'', timestamp = ''t'', model_version = ''v1'', prediction = 1, churn_probability = 9 / 10, latency_ms = 7\<rparr>]\<rparr> \<noteq> []
   \<and> ''v2'' \<in> fst ` set (traffic_split \<lparr>traffic_split = [(''v1'', 5 / 10), (''v2'', 5 / 10)], request_log = [\<lparr>request_id = ''a'', timestamp = ''t'', model_version = ''v1'', prediction = 1, churn_probability = 9 / 10, latency_ms = 7\<rparr>]\<rparr>)
   \<and> (\<exists>s. get_statistics \<lparr>traffic_split = [(''v1'', 5 / 10), (''v2'', 5 / 10)], request_log = [\<lparr>request_id = ''a'', timestamp = ''t'', model_version = ''v1'', prediction = 1, churn_probability = 9 / 10, latency_ms = 7\<rparr>]\<rparr>
            = (Inr s, \<lparr>traffic_split = [(''v1'', 5 / 10), (''v2'', 5 / 10)], request_log = [\<lparr>request_id = ''a'', timestamp = ''t'', model_version = ''v1'', prediction = 1, churn_probability = 9 / 10, latency_ms = 7\<rparr>]\<rparr>)
          \<and> total_requests s = 1 \<and> map_of (models s) ''v2'' = None
          \<and> (\<exists>x. map_of (models s) ''v1'' = Some x \<and> request_count x = 1))"
proof -
  let ?t = "\<lparr>traffic_split = [(''v1'', 5 / 10), (''v2'', 5 / 10)], request_log = [\<lparr>request_id = ''a'', timestamp = ''t'', model_version = ''v1'', prediction = 1, churn_probability = 9 / 10, latency_ms = 7\<rparr>]\<rparr>"
  have ne: "request_log ?t \<noteq> []" by simp
  have k2: "''v2'' \<in> fst ` set (traffic_split ?t)" by simp
  have k1: "''v1'' \<in> fst ` set (traffic_split ?t)" by simp
  from get_statistics_reports_matched [OF ne k2] obtain s where
    s: "get_statistics ?t = (Inr s, ?t)" "total_requests s = 1" "map_of (models s) ''v2'' = None"
    by auto
  from get_statistics_reports_matched [OF ne k1] obtain s' x where
    s': "get_statistics ?t = (Inr s', ?t)" "map_of (models s') ''v1'' = Some x" "request_count x = 1"
    by auto
  from s(1) s'(1) have "s' = s" by simp
  with s s' ne k2 show ?thesis by auto
qed

text \<open>
  The claim as written fails: with the policy \<open>{v1: 0.5, v2: 0.5}\<close> and one record, of \<open>v1\<close>,
  the per-version map has no entry for \<open>v2\<close>.
\<close>

theorem get_statistics_omits_unmatched_counterexample:
  "request_log \<lparr>traffic_split = [(''v1'', 5 / 10), (''v2'', 5 / 10)], request_log = [\<lparr>request_id = ''a'', timestamp = ''t'', model_version = ''v1'', prediction = 1, churn_probability = 9 / 10, latency_ms = 7\<rparr>]\<rparr> \<noteq> []
   \<and> ''v2'' \<in> fst ` set (traffic_split \<lparr>traffic_split = [(''v1'', 5 / 10), (''v2'', 5 / 10)], request_log = [\<lparr>request_id = ''a'', timestamp = ''t'', model_version = ''v1'', prediction = 1, churn_probability = 9 / 10, latency_ms = 7\<rparr>]\<rparr>)
   \<and> fst (get_statistics \<lparr>traffic_split = [(''v1'', 5 / 10), (''v2'', 5 / 10)], request_log = [\<lparr>request_id = ''a'', timestamp = ''t'', model_version = ''v1'', prediction = 1, churn_probability = 9 / 10, latency_ms = 7\<rparr>]\<rparr>)
       = Inr \<lparr>total_requests = 1,
              models = [(''v1'', \<lparr>request_count = 1, traffic_percentage = 100, avg_latency_ms = 7, churn_rate = 100, min_latency_ms = 7, max_latency_ms = 7\<rparr>)]\<rparr>
   \<and> map_of [(''v1'', \<lparr>request_count = 1, traffic_percentage = 100, avg_latency_ms = 7, churn_rate = 100, min_latency_ms = 7, max_latency_ms = 7\<rparr>)] ''v2'' = None"
  by (simp add: get_statistics_def and_then_def version_stats_def py_div_def Let_def)

text \<open>
  Claim C6. With three records of \<open>v1\<close>, of latencies 10, 20 and 30 ms, two of them with a
  positive prediction, and one record of \<open>v2\<close>, of latency 5 ms and prediction 0,
  \<open>get_statistics\<close> reports a total of 4; for \<open>v1\<close> the count 3, the mean latency 20 and the
  positive rate \<open>200 / 3\<close> percent, which is 66.7 to one decimal; for \<open>v2\<close> the count 1, the
  mean latency 5 and the positive rate 0. Identifiers, timestamps and probabilities are
  arbitrary.
\<close>

theorem get_statistics_scenario:
  "get_statistics
     \<lparr>traffic_split = [(''v1'', 5 / 10), (''v2'', 5 / 10)],
      request_log =
        [\<lparr>request_id = i1, timestamp = t1, model_version = ''v1'', prediction = 1, churn_probability = q1, latency_ms = 10\<rparr>,
         \<lparr>request_id = i2, timestamp = t2, model_version = ''v1'', prediction = 1, churn_probability = q2, latency_ms = 20\<rparr>,
         \<lparr>request_id = i3, timestamp = t3, model_version = ''v1'', prediction = 0, churn_probability = q3, latency_ms = 30\<rparr>,
         \<lparr>request_id = i4, timestamp = t4, model_version = ''v2'', prediction = 0, churn_probability = q4, latency_ms = 5\<rparr>]\<rparr>
   = (Inr \<lparr>total_requests = 4,
           models = [(''v1'', \<lparr>request_count = 3, traffic_percentage = 75, avg_latency_ms = 20,
                               churn_rate = 200 / 3, min_latency_ms = 10, max_latency_ms = 30\<rparr>),
                     (''v2'', \<lparr>request_count = 1, traffic_percentage = 25, avg_latency_ms = 5,
                               churn_rate = 0, min_latency_ms = 5, max_latency_ms = 5\<rparr>)]\<rparr>,
      \<lparr>traffic_split = [(''v1'', 5 / 10), (''v2'', 5 / 10)],
      request_log =
        [\<lparr>request_id = i1, timestamp = t1, model_version = ''v1'', prediction = 1, churn_probability = q1, latency_ms = 10\<rparr>,
         \<lparr>request_id = i2, timestamp = t2, model_version = ''v1'', prediction = 1, churn_probability = q2, latency_ms = 20\<rparr>,
         \<lparr>request_id = i3, timestamp = t3, model_version = ''v1'', prediction = 0, churn_probability = q3, latency_ms = 30\<rparr>,
         \<lparr>request_id = i4, timestamp = t4, model_version = ''v2'', prediction = 0, churn_probability = q4, latency_ms = 5\<rparr>]\<rparr>)
   \<and> \<bar>200 / 3 - 667 / 10\<bar> < (5 / 100 :: real)"
  by (simp add: get_statistics_def and_then_def version_stats_def py_div_def Let_def)

text \<open>
  Claim C8. For every tester whose \<open>request_log\<close> is empty, \<open>get_statistics\<close> does not raise
  and returns \<open>total_requests = 0\<close> with an empty per-version map.
\<close>

theorem get_statistics_empty:
  assumes "request_log t = []"
  shows "get_statistics t = (Inr \<lparr>total_requests = 0, models = []\<rparr>, t)"
  using assms by (simp add: get_statistics_def)

theorem get_statistics_empty_witness:
  "request_log \<lparr>traffic_split = [(''v1'', 5 / 10), (''v2'', 5 / 10)], request_log = []\<rparr> = []
   \<and> get_statistics \<lparr>traffic_split = [(''v1'', 5 / 10), (''v2'', 5 / 10)], request_log = []\<rparr>
       = (Inr \<lparr>total_requests = 0, models = []\<rparr>,
          \<lparr>traffic_split = [(''v1'', 5 / 10), (''v2'', 5 / 10)], request_log = []\<rparr>)"
proof -
  have h: "request_log \<lparr>traffic_split = [(''v1'', 5 / 10), (''v2'', 5 / 10)], request_log = []\<rparr> = []"
    by simp
  from get_statistics_empty [OF h] h show ?thesis by simp
qed

text \<open>
  Claim C9. \<open>get_statistics\<close> only observes: the tester after the call is the tester before
  it, so \<open>traffic_split\<close>, \<open>request_log\<close> and every record in them are unchanged, and a second
  call on the resulting state returns what the first one returned.
\<close>

theorem get_statistics_pure:
  "snd (get_statistics t) = t
   \<and> traffic_split (snd (get_statistics t)) = traffic_split t
   \<and> request_log (snd (get_statistics t)) = request_log t
   \<and> get_statistics (snd (get_statistics t)) = get_statistics t"
proof -
  have "snd (get_statistics t) = t" by (simp add: get_statistics_def)
  then show ?thesis by simp
qed

section \<open>The prediction endpoint\<close>

subsection \<open>Auxiliary facts\<close>

lemma predict_body_failure:
  "predict_body float_add customer user_id env st = (Inl err, st') \<Longrightarrow> recorded st' = recorded st"
  by (auto simp: predict_body_def select_model_def log_request_def Let_def recorded_def
           split: option.splits sum.splits prod.splits list.splits)

lemma predict_body_success:
  "predict_body float_add customer user_id env st = (Inr response, st') \<Longrightarrow>
   \<exists>e. recorded st' = recorded st @ [e] \<and> request_id e = uuid4 env
      \<and> model_version e = r_model_version response
      \<and> latency_ms e = r_latency_ms response"
  by (auto simp: predict_body_def select_model_def log_request_def Let_def recorded_def
           split: option.splits sum.splits prod.splits list.splits)

lemma predict_body_unknown:
  "ab_tester st = Some tester \<Longrightarrow> fst (select_model float_add (random_value env) user_id tester) = Inr v \<Longrightarrow>
   app_models st v = None \<Longrightarrow>
   predict_body float_add customer user_id env st = (Inl (KeyError v), st)"
  by (auto simp: predict_body_def select_model_def Let_def
           split: option.splits sum.splits prod.splits list.splits)

subsection \<open>The claim on recording\<close>

text \<open>
  Claim C1. For every call of \<open>predict_churn\<close>: when it returns a response, exactly one
  record has been appended to \<open>request_log\<close>, carrying the identifier of the request and the
  version of the response; when it raises, the error is an HTTP error of status 500 and
  \<open>request_log\<close> is as before. In particular, when the selected version is not a key of
  \<open>models\<close>, the caller gets that error, caused by the \<open>KeyError\<close> of the lookup, and the whole
  state, \<open>request_log\<close> included, is unchanged.
\<close>

theorem predict_churn_appends:
  "(\<forall>response. fst (predict_churn float_add customer user_id env st) = Inr response \<longrightarrow>
      (\<exists>e. recorded (snd (predict_churn float_add customer user_id env st)) = recorded st @ [e]
          \<and> request_id e = uuid4 env
          \<and> model_version e = r_model_version response))
   \<and> (\<forall>err. fst (predict_churn float_add customer user_id env st) = Inl err \<longrightarrow>
         (\<exists>cause. err = HTTPException 500 cause)
       \<and> recorded (snd (predict_churn float_add customer user_id env st)) = recorded st)
   \<and> (\<forall>tester v. ab_tester st = Some tester \<longrightarrow>
         fst (select_model float_add (random_value env) user_id tester) = Inr v \<longrightarrow>
         app_models st v = None \<longrightarrow>
         predict_churn float_add customer user_id env st = (Inl (HTTPException 500 (KeyError v)), st))"
proof (intro conjI allI impI)
  fix response
  assume a: "fst (predict_churn float_add customer user_id env st) = Inr response"
  obtain res st' where b: "predict_body float_add customer user_id env st = (res, st')"
    by (cases "predict_body float_add customer user_id env st")
  with a have "res = Inr response" and c: "snd (predict_churn float_add customer user_id env st) = st'"
    by (auto simp: predict_churn_def split: sum.splits)
  with b have "predict_body float_add customer user_id env st = (Inr response, st')" by simp
  from predict_body_success [OF this] c
  show "\<exists>e. recorded (snd (predict_churn float_add customer user_id env st)) = recorded st @ [e]
          \<and> request_id e = uuid4 env \<and> model_version e = r_model_version response"
    by auto
next
  fix err
  assume a: "fst (predict_churn float_add customer user_id env st) = Inl err"
  obtain res st' where b: "predict_body float_add customer user_id env st = (res, st')"
    by (cases "predict_body float_add customer user_id env st")
  with a obtain cause where d: "res = Inl cause" "err = HTTPException 500 cause"
    and c: "snd (predict_churn float_add customer user_id env st) = st'"
    by (auto simp: predict_churn_def split: sum.splits)
  from b d(1) have "predict_body float_add customer user_id env st = (Inl cause, st')" by simp
  from predict_body_failure [OF this] have e: "recorded st' = recorded st" .
  from d(2) show "\<exists>cause. err = HTTPException 500 cause" by blast
  from c e show "recorded (snd (predict_churn float_add customer user_id env st)) = recorded st" by simp
next
  fix tester v
  assume "ab_tester st = Some tester"
    and "fst (select_model float_add (random_value env) user_id tester) = Inr v"
    and "app_models st v = None"
  from predict_body_unknown [OF this]
  show "predict_churn float_add customer user_id env st = (Inl (HTTPException 500 (KeyError v)), st)"
    by (simp add: predict_churn_def)
qed

theorem predict_churn_appends_witness:
  "predict_churn double_add () None \<lparr>uuid4 = ''id-1'', random_value = 3 / 10, elapsed_ms = 12, now_iso = ''2024-01-01T00:00:00''\<rparr>
      \<lparr>app_models = [''v1'' \<mapsto> constant_predictor, ''v2'' \<mapsto> constant_predictor],
       ab_tester = Some \<lparr>traffic_split = [(''v3'', 1)], request_log = []\<rparr>,
       prediction_counter = (\<lambda>l. 0), prediction_latency = (\<lambda>l. []), churn_predictions = (\<lambda>l. 0)\<rparr>
    = (Inl (HTTPException 500 (KeyError ''v3'')),
       \<lparr>app_models = [''v1'' \<mapsto> constant_predictor, ''v2'' \<mapsto> constant_predictor],
       ab_tester = Some \<lparr>traffic_split = [(''v3'', 1)], request_log = []\<rparr>,
       prediction_counter = (\<lambda>l. 0), prediction_latency = (\<lambda>l. []), churn_predictions = (\<lambda>l. 0)\<rparr>)
   \<and> (\<exists>e. recorded (snd (predict_churn double_add () None
              \<lparr>uuid4 = ''id-1'', random_value = 3 / 10, elapsed_ms = 12, now_iso = ''2024-01-01T00:00:00''\<rparr>
              \<lparr>app_models = [''v1'' \<mapsto> constant_predictor, ''v2'' \<mapsto> constant_predictor],
               ab_tester = Some \<lparr>traffic_split = [(''v1'', 1)], request_log = []\<rparr>,
               prediction_counter = (\<lambda>l. 0), prediction_latency = (\<lambda>l. []), churn_predictions = (\<lambda>l. 0)\<rparr>)) = [e]
          \<and> request_id e = ''id-1'' \<and> model_version e = ''v1'')"
proof -
  let ?env = "\<lparr>uuid4 = ''id-1'', random_value = 3 / 10, elapsed_ms = 12, now_iso = ''2024-01-01T00:00:00''\<rparr>"
  let ?st = "\<lambda>v. \<lparr>app_models = [''v1'' \<mapsto> constant_predictor, ''v2'' \<mapsto> constant_predictor],
       ab_tester = Some \<lparr>traffic_split = [(v, 1)], request_log = []\<rparr>,
       prediction_counter = (\<lambda>l. 0), prediction_latency = (\<lambda>l. []), churn_predictions = (\<lambda>l. 0)\<rparr>"
  have d01: "double_add 0 1 = 1" by (simp add: double_eval)
  have t3: "ab_tester (?st ''v3'') = Some \<lparr>traffic_split = [(''v3'', 1)], request_log = []\<rparr>" by simp
  have s3: "fst (select_model double_add (random_value ?env) None \<lparr>traffic_split = [(''v3'', 1)], request_log = []\<rparr>) = Inr ''v3''"
    by (simp add: select_model_def d01)
  have m3: "app_models (?st ''v3'') ''v3'' = None" by simp
  have ok: "fst (predict_churn double_add () None ?env (?st ''v1''))
      = Inr \<lparr>r_request_id = ''id-1'', r_model_version = ''v1'', r_prediction = 1,
             r_churn_probability = 8 / 10, r_will_churn = True, r_confidence = 8 / 10,
             r_latency_ms = 12\<rparr>"
    by (simp add: predict_churn_def predict_body_def select_model_def log_request_def
                  constant_predictor_def Let_def d01)
  have empty: "recorded (?st ''v1'') = []" by (simp add: recorded_def)
  from predict_churn_appends [of double_add "()" None ?env "?st ''v3''"] t3 s3 m3
  have one: "predict_churn double_add () None ?env (?st ''v3'') = (Inl (HTTPException 500 (KeyError ''v3'')), ?st ''v3'')"
    by blast
  from predict_churn_appends [of double_add "()" None ?env "?st ''v1''"] ok
  have "\<exists>e. recorded (snd (predict_churn double_add () None ?env (?st ''v1''))) = recorded (?st ''v1'') @ [e]
          \<and> request_id e = uuid4 ?env
          \<and> model_version e = r_model_version \<lparr>r_request_id = ''id-1'', r_model_version = ''v1'', r_prediction = 1,
             r_churn_probability = 8 / 10, r_will_churn = True, r_confidence = 8 / 10,
             r_latency_ms = 12\<rparr>"
    by blast
  with empty have two: "\<exists>e. recorded (snd (predict_churn double_add () None ?env (?st ''v1''))) = [e]
          \<and> request_id e = ''id-1'' \<and> model_version e = ''v1''"
    by simp
  from one two show ?thesis by blast
qed

end
